theory Spec2Isabelle
  imports Complex_Main "HOL-Library.Multiset"
begin

section \<open>Python values and built-ins used by the agents\<close>

text \<open>
  Python strings are modelled as HOL strings; each character stands for a code point
  below 256. The built-in string methods the agents call are written out below with the
  behaviour Python gives them on such strings.

  The two agents talk to three collaborators whose code is outside the two modules: the
  text-generation call \<open>invoke_with_template\<close> of the base agent, the document index
  \<open>mcp_client.search_documents_sync\<close>, and the module logger. A call of the first two
  either returns a value or fails with an exception, so its outcome is a value of
  \<open>exn + 'a\<close>. Only subclasses of \<open>Exception\<close> are modelled, which is what a failing
  collaborator raises; \<open>json.JSONDecodeError\<close> is kept apart because \<open>parse_code\<close>
  handles it differently. The exception carries the text that \<open>str\<close> gives for it.
  The logger never fails; the records it receives are collected in a list.
\<close>

datatype exn = JSONDecodeError string | OtherException string

fun exn_str :: "exn \<Rightarrow> string" where
  "exn_str (JSONDecodeError m) = m"
| "exn_str (OtherException m) = m"

fun is_JSONDecodeError :: "exn \<Rightarrow> bool" where
  "is_JSONDecodeError (JSONDecodeError m) = True"
| "is_JSONDecodeError (OtherException m) = False"

datatype level = INFO | WARNING | ERROR

type_synonym log = "(level \<times> string) list"

text \<open>\<open>str.isspace\<close> on one character: the code points below 256 that Python counts
  as whitespace are 9 to 13, 28 to 32, 133 and 160.\<close>

definition py_isspace :: "char \<Rightarrow> bool" where
  "py_isspace c =
     (let n = (of_char c :: nat)
      in (9 \<le> n \<and> n \<le> 13) \<or> (28 \<le> n \<and> n \<le> 32) \<or> n = 133 \<or> n = 160)"

text \<open>\<open>s.strip()\<close>: whitespace removed at both ends.\<close>

definition py_strip :: "string \<Rightarrow> string" where
  "py_strip s = rev (dropWhile py_isspace (rev (dropWhile py_isspace s)))"

text \<open>\<open>s.startswith(p)\<close> and \<open>s.endswith(p)\<close>.\<close>

definition py_startswith :: "string \<Rightarrow> string \<Rightarrow> bool" where
  "py_startswith s p = (take (length p) s = p)"

definition py_endswith :: "string \<Rightarrow> string \<Rightarrow> bool" where
  "py_endswith s p = (length p \<le> length s \<and> drop (length s - length p) s = p)"

text \<open>The line feed character, written \<open>\n\<close> in the source.\<close>

definition newline :: char where
  "newline = CHR 0x0A"

text \<open>\<open>s.split(sep)\<close> for a separator of one character: one piece more than there
  are separators in \<open>s\<close>; the empty string gives one empty piece.\<close>

fun py_split :: "char \<Rightarrow> string \<Rightarrow> string list" where
  "py_split sep [] = [[]]"
| "py_split sep (c # cs) =
     (if c = sep then [] # py_split sep cs
      else (case py_split sep cs of
              [] \<Rightarrow> [[c]]
            | w # ws \<Rightarrow> (c # w) # ws))"

text \<open>\<open>sep.join(parts)\<close>.\<close>

fun py_join :: "string \<Rightarrow> string list \<Rightarrow> string" where
  "py_join sep [] = []"
| "py_join sep [p] = p"
| "py_join sep (p # q # ps) = p @ sep @ py_join sep (q # ps)"

text \<open>\<open>str(n)\<close> for a natural number, as the f-string \<open>{i}\<close> renders it.\<close>

definition digit_char :: "nat \<Rightarrow> char" where
  "digit_char d = char_of (48 + d)"

fun show_nat :: "nat \<Rightarrow> string" where
  "show_nat n = (if n < 10 then [digit_char n] else show_nat (n div 10) @ [digit_char (n mod 10)])"

declare show_nat.simps [simp del]

text \<open>
  A score is a Python float (or the integer default 0). It is modelled by the rational
  number that is its exact value, which covers every finite float; the order of the
  rationals is the order Python compares them by. The format \<open>{score:.2f}\<close> rounds
  the exact value to two decimals, ties to the even neighbour, and keeps the sign of a
  negative value also when it rounds to zero.
\<close>

definition round_half_even :: "rat \<Rightarrow> int" where
  "round_half_even x =
     (let f = \<lfloor>x\<rfloor>; d = x - of_int f
      in if d < 1 / 2 then f
         else if 1 / 2 < d then f + 1
         else if even f then f else f + 1)"

definition format_2f :: "rat \<Rightarrow> string" where
  "format_2f x =
     (let n = nat (round_half_even (\<bar>x\<bar> * 100))
      in (if x < 0 then ''-'' else '''') @ show_nat (n div 100) @ ''.'' @
         [digit_char (n div 10 mod 10), digit_char (n mod 10)])"

text \<open>
  \<open>xs.sort(key=key, reverse=True)\<close>: CPython reverses the list, sorts it with a stable
  ascending sort and reverses the result, so that equal keys keep their order.
\<close>

definition py_sort_reverse :: "('a \<Rightarrow> 'k::linorder) \<Rightarrow> 'a list \<Rightarrow> 'a list" where
  "py_sort_reverse key xs = rev (sort_key key (rev xs))"

section \<open>The context retrieval agent\<close>

subsection \<open>Data\<close>

text \<open>
  A search result is a dictionary read with \<open>get('text', '')\<close> and \<open>get('score', 0)\<close>:
  both keys may be missing. The other keys are never read and are kept as they come.
\<close>

record doc =
  doc_text :: "string option"
  doc_score :: "rat option"
  doc_source :: "(string \<times> string) list"

text \<open>An entry of \<open>bugs_found\<close>, read with \<open>get('bug_type', '')\<close> and
  \<open>get('description', '')\<close>, and \<open>bug_info\<close> itself, read with \<open>get('bugs_found', [])\<close>.\<close>

record bug =
  bug_type :: "string option"
  description :: "string option"

record bug_info =
  bugs_found :: "bug list option"

text \<open>The dictionary that \<open>retrieve_bug_context\<close> returns.\<close>

record retrieval_result =
  retrieved_documents :: "doc list"
  synthesized_context :: string
  total_documents_found :: nat

text \<open>\<open>d.get(key, default)\<close> on an optional field.\<close>

definition get_or :: "'a option \<Rightarrow> 'a \<Rightarrow> 'a" where
  "get_or v d = (case v of None \<Rightarrow> d | Some x \<Rightarrow> x)"

subsection \<open>Removing duplicates and ranking\<close>

text \<open>
  The built-in \<open>hash\<close> on strings is a parameter \<open>h\<close>: it is a function of the string
  within one run and nothing more is known about it. The fingerprint of a result is the
  hash of the first 200 characters of its text.
\<close>

definition fingerprint :: "(string \<Rightarrow> int) \<Rightarrow> doc \<Rightarrow> int" where
  "fingerprint h result = h (take 200 (get_or (doc_text result) ''''))"

text \<open>The \<open>for\<close> loop of \<open>_deduplicate_results\<close>, with its two variables
  \<open>seen_texts\<close> and \<open>unique\<close>.\<close>

fun dedupe_loop :: "(string \<Rightarrow> int) \<Rightarrow> doc list \<Rightarrow> int set \<Rightarrow> doc list \<Rightarrow> doc list" where
  "dedupe_loop h [] seen_texts unique = unique"
| "dedupe_loop h (result # results) seen_texts unique =
     (let text_hash = fingerprint h result
      in if text_hash \<notin> seen_texts
         then dedupe_loop h results (insert text_hash seen_texts) (unique @ [result])
         else dedupe_loop h results seen_texts unique)"

text \<open>The sort key \<open>lambda x: x.get('score', 0)\<close>, and \<open>_deduplicate_results\<close>: the
  loop started with an empty set and an empty list, then the sort of \<open>unique\<close> in
  descending order of the key.\<close>

definition score_key :: "doc \<Rightarrow> rat" where
  "score_key x = get_or (doc_score x) 0"

definition deduplicate_results :: "(string \<Rightarrow> int) \<Rightarrow> doc list \<Rightarrow> doc list" where
  "deduplicate_results h results = py_sort_reverse score_key (dedupe_loop h results {} [])"

subsection \<open>Rendering the context\<close>

text \<open>The \<open>for i, doc in enumerate(top_docs, 1)\<close> loop of \<open>_synthesize_context\<close>:
  \<open>i\<close> is the running position and \<open>context_parts\<close> the list it appends to.\<close>

fun synth_loop :: "nat \<Rightarrow> doc list \<Rightarrow> string list \<Rightarrow> string list" where
  "synth_loop i [] context_parts = context_parts"
| "synth_loop i (doc # docs) context_parts =
     (let text = get_or (doc_text doc) '''';
          score = get_or (doc_score doc) 0
      in synth_loop (i + 1) docs
           (context_parts @
            [''[Document '' @ show_nat i @ '', relevance: '' @ format_2f score @ '']'' @
             [newline] @ take 300 text @ ''...'']))"

text \<open>\<open>_synthesize_context\<close>: the sentinel for an empty list, otherwise the parts
  rendered for \<open>results[:3]\<close>, joined by two line feeds.\<close>

definition synthesize_context :: "doc list \<Rightarrow> string" where
  "synthesize_context results =
     (if results = [] then ''No relevant documentation found.''
      else (let top_docs = take 3 results
            in py_join [newline, newline] (synth_loop 1 top_docs [])))"

subsection \<open>Planning the queries\<close>

text \<open>
  \<open>invoke_with_template(template, **kwargs)\<close> is a parameter: it receives the template
  and the keyword arguments and returns the generated text or fails. Each operation
  calls it once.
\<close>

type_synonym invoke = "string \<Rightarrow> (string \<times> string) list \<Rightarrow> exn + string"

definition unlines :: "string list \<Rightarrow> string" where
  "unlines ls = py_join [newline] ls"

definition keyword_template :: string where
  "keyword_template = unlines
     [''Extract 2-3 key technical terms from this code that would be useful for searching bug documentation:'',
      '''',
      ''Code:'',
      ''{code}'',
      '''',
      ''Return only the terms, comma-separated.'']"

text \<open>The loop over \<open>bugs_found[:3]\<close>; \<open>queries\<close> is the list it appends to.\<close>

fun bug_loop :: "bug list \<Rightarrow> string list \<Rightarrow> string list" where
  "bug_loop [] queries = queries"
| "bug_loop (b # bs) queries =
     (let bug_type = get_or (bug_type b) '''';
          description = get_or (description b) '''';
          queries = (if bug_type \<noteq> ''''
                     then queries @ [''C++ '' @ bug_type] @ [bug_type @ '' bug example'']
                     else queries);
          queries = (if description \<noteq> ''''
                     then queries @ [take 100 description]
                     else queries)
      in bug_loop bs queries)"

text \<open>\<open>_generate_search_queries\<close>. The loop runs when \<open>bugs_found\<close> is not empty; the
  generic query is appended; the keyword query is appended when the text-generation
  call returns, and a warning is logged when it fails; the first five queries are
  returned. The second component is what the call has logged.\<close>

definition generate_search_queries :: "invoke \<Rightarrow> string \<Rightarrow> bug_info \<Rightarrow> string list \<times> log" where
  "generate_search_queries invoke_with_template code bug_info =
     (let bugs_found = get_or (bugs_found bug_info) [];
          queries = (if bugs_found \<noteq> [] then bug_loop (take 3 bugs_found) [] else []);
          queries = queries @ [''C++ common bugs'']
      in case (case invoke_with_template keyword_template [(''code'', take 500 code)] of
                 Inr terms \<Rightarrow> (queries @ [py_strip terms], [])
               | Inl e \<Rightarrow>
                   (queries, [(WARNING, ''Failed to extract search terms: '' @ exn_str e)])) of
           (queries, lg) \<Rightarrow> (take 5 queries, lg))"

subsection \<open>The retrieval\<close>

text \<open>
  The document index is a stateful service: the same query may be answered differently
  by two calls. A call takes the state of the service and returns its outcome and the
  next state. The loop below is the \<open>for query in queries\<close> loop with its
  \<open>try\<close>/\<open>except Exception\<close> body.
\<close>

type_synonym 's search_client = "'s \<Rightarrow> string \<Rightarrow> (exn + doc list) \<times> 's"

fun search_loop ::
  "'s search_client \<Rightarrow> string list \<Rightarrow> doc list \<Rightarrow> log \<Rightarrow> 's \<Rightarrow> doc list \<times> log \<times> 's" where
  "search_loop search [] all_results lg s = (all_results, lg, s)"
| "search_loop search (query # queries) all_results lg s =
     (case search s query of
        (Inr results, s') \<Rightarrow> search_loop search queries (all_results @ results) lg s'
      | (Inl e, s') \<Rightarrow>
          search_loop search queries all_results
            (lg @ [(ERROR, ''Error searching documents: '' @ exn_str e)]) s')"

text \<open>\<open>retrieve_bug_context\<close>. It returns the result dictionary, the records logged and
  the state in which it leaves the document index.\<close>

definition retrieve_bug_context ::
  "'s search_client \<Rightarrow> invoke \<Rightarrow> (string \<Rightarrow> int) \<Rightarrow> string \<Rightarrow> bug_info \<Rightarrow> 's \<Rightarrow>
   retrieval_result \<times> log \<times> 's" where
  "retrieve_bug_context search invoke_with_template h code bug_info s =
     (case generate_search_queries invoke_with_template code bug_info of
        (queries, lg) \<Rightarrow>
          (case search_loop search queries [] lg s of
             (all_results, lg', s') \<Rightarrow>
               (let unique_results = deduplicate_results h all_results;
                    context = synthesize_context unique_results
                in (\<lparr>retrieved_documents = take 5 unique_results,
                     synthesized_context = context,
                     total_documents_found = length unique_results\<rparr>, lg', s'))))"

section \<open>The code parser agent\<close>

text \<open>
  \<open>json.loads\<close> is a parameter: it returns the decoded value or fails. The decoded value
  is whatever JSON the response holds, not necessarily an object. The module logs through
  a module logger \<open>logger\<close> as the retrieval module does; the records are collected in
  the same way.
\<close>

datatype json =
    JNull
  | JBool bool
  | JInt int
  | JFloat rat
  | JString string
  | JArray "json list"
  | JObject "(string \<times> json) list"

type_synonym loads = "string \<Rightarrow> exn + json"

definition parse_template :: string where
  \<open>parse_template = unlines
     [''Analyze the following C++ code snippet and provide a structured analysis.'',
      '''',
      ''                Code:'',
      ''                ```cpp'',
      ''                {code}'',
      ''                ```'',
      '''',
      ''                Context: {context}'',
      '''',
      ''                Provide your analysis in the following JSON format:'',
      ''                {{'',
      ''                    "functions": ["list of function names"],'',
      ''                    "variables": ["list of variable names"],'',
      ''                    "line_count": number,'',
      ''                    "complexity": "low/medium/high",'',
      ''                    "potential_issues": ["list of potential problem areas"],'',
      ''                    "code_summary": "brief summary of what the code does"'',
      ''                }}'',
      '''',
      ''                Return ONLY the JSON, no additional text.'']\<close>

text \<open>The three conditional strips between the two \<open>strip()\<close> calls, one definition per
  \<open>if\<close> statement, and their composition as the source sequences them.\<close>

definition strip_json_fence :: "string \<Rightarrow> string" where
  "strip_json_fence response =
     (if py_startswith response ''```json'' then drop 7 response else response)"

definition strip_leading_fence :: "string \<Rightarrow> string" where
  "strip_leading_fence response =
     (if py_startswith response ''```'' then drop 3 response else response)"

definition strip_trailing_fence :: "string \<Rightarrow> string" where
  "strip_trailing_fence response =
     (if py_endswith response ''```'' then take (length response - 3) response else response)"

definition extract_json :: "string \<Rightarrow> string" where
  "extract_json response =
     (let response = py_strip response;
          response = strip_json_fence response;
          response = strip_leading_fence response;
          response = strip_trailing_fence response
      in py_strip response)"

text \<open>The record returned by the \<open>except json.JSONDecodeError\<close> clause.\<close>

definition fallback_record :: "string \<Rightarrow> json" where
  "fallback_record code =
     JObject
       [(''functions'', JArray []),
        (''variables'', JArray []),
        (''line_count'', JInt (int (length (py_split newline code)))),
        (''complexity'', JString ''unknown''),
        (''potential_issues'', JArray []),
        (''code_summary'', JString ''Unable to parse code structure'')]"

text \<open>The two \<open>except\<close> clauses, in the order of the source: a \<open>JSONDecodeError\<close> is
  answered with the fallback record, any other exception is logged and raised again.\<close>

definition parse_except :: "string \<Rightarrow> exn \<Rightarrow> (exn + json) \<times> log" where
  "parse_except code e =
     (if is_JSONDecodeError e
      then (Inr (fallback_record code),
            [(WARNING, ''Failed to parse JSON response: '' @ exn_str e)])
      else (Inl e, [(ERROR, ''Error parsing code: '' @ exn_str e)]))"

text \<open>\<open>parse_code\<close>: the \<open>try\<close> block with the text-generation call, the strips
  and the decoding, and the handlers for whichever of the two calls raises. It returns
  the decoded value or the exception it raises, and the records logged.\<close>

abbreviation parse_kwargs :: "string \<Rightarrow> string \<Rightarrow> (string \<times> string) list" where
  "parse_kwargs code context \<equiv>
     [(''code'', code),
      (''context'', if context \<noteq> '''' then context else ''No additional context provided'')]"

definition parse_code :: "invoke \<Rightarrow> loads \<Rightarrow> string \<Rightarrow> string \<Rightarrow> (exn + json) \<times> log" where
  "parse_code invoke_with_template json_loads code context =
     (case invoke_with_template parse_template (parse_kwargs code context) of
        Inl e \<Rightarrow> parse_except code e
      | Inr response \<Rightarrow>
          (case json_loads (extract_json response) of
             Inl e \<Rightarrow> parse_except code e
           | Inr parsed \<Rightarrow> (Inr parsed, [(INFO, ''Successfully parsed code structure'')])))"

section \<open>Notions used to state the properties\<close>

text \<open>A result whose missing score is written out as the default 0.\<close>

definition with_default_score :: "doc \<Rightarrow> doc" where
  "with_default_score d =
     d\<lparr>doc_score := Some (case doc_score d of None \<Rightarrow> 0 | Some s \<Rightarrow> s)\<rparr>"

text \<open>The block the specification describes for the document at position \<open>i\<close>: a label
  with the position and the score to two decimals, a line break, the first 300
  characters of the text and the marker \<open>...\<close>.\<close>

definition rendered_block :: "nat \<Rightarrow> doc \<Rightarrow> string" where
  "rendered_block i d =
     ''[Document '' @ show_nat i @ '', relevance: '' @ format_2f (get_or (doc_score d) 0) @
     '']'' @ [newline] @ take 300 (get_or (doc_text d) '''') @ ''...''"

text \<open>The largest finite float, \<open>(2 - 2^-52) * 2^1023\<close>: the magnitude of a score that is
  a float is at most this.\<close>

definition max_float :: rat where
  "max_float = (2 ^ 53 - 1) * 2 ^ 971"

text \<open>The queries the specification lists for one bug: the domain-qualified query and
  the example query when the bug type is present, then the description cut to 100
  characters when it is present.\<close>

definition bug_queries :: "bug \<Rightarrow> string list" where
  "bug_queries b =
     (let t = get_or (bug_type b) ''''; d = get_or (description b) ''''
      in (if t \<noteq> '''' then [''C++ '' @ t, t @ '' bug example''] else []) @
         (if d \<noteq> '''' then [take 100 d] else []))"


text \<open>\<open>d.get(key)\<close> on a decoded JSON value that is an object.\<close>

fun json_field :: "string \<Rightarrow> json \<Rightarrow> json option" where
  "json_field k (JObject kvs) = map_of kvs k"
| "json_field k v = None"

text \<open>A decoder for the examples. It answers as \<open>json.loads\<close> does on the two inputs the
  examples decode: the empty object is accepted, and a text that starts no JSON value is
  rejected with the message of \<open>json.loads\<close>.\<close>

definition example_loads :: loads where
  "example_loads s =
     (if s = ''{}'' then Inr (JObject [])
      else Inl (JSONDecodeError ''Expecting value: line 1 column 1 (char 0)''))"

section \<open>Properties of the duplicate removal\<close>

lemma dedupe_loop_distinct:
  "distinct (map (fingerprint h) unique) \<Longrightarrow> fingerprint h ` set unique \<subseteq> seen \<Longrightarrow>
   distinct (map (fingerprint h) (dedupe_loop h xs seen unique))"
proof (induction xs arbitrary: seen unique)
  case Nil
  then show ?case by simp
next
  case (Cons x xs)
  show ?case
  proof (cases "fingerprint h x \<in> seen")
    case True
    with Cons show ?thesis by simp
  next
    case False
    have "distinct (map (fingerprint h) (unique @ [x]))"
      using Cons.prems False by auto
    moreover have "fingerprint h ` set (unique @ [x]) \<subseteq> insert (fingerprint h x) seen"
      using Cons.prems by auto
    ultimately show ?thesis
      using Cons.IH False by (simp add: Let_def)
  qed
qed

lemma dedupe_loop_set:
  "set (dedupe_loop h xs seen unique) =
     set unique \<union> {d \<in> set xs. fingerprint h d \<notin> seen \<and>
                        find (\<lambda>x. fingerprint h x = fingerprint h d) xs = Some d}"
proof (induction xs arbitrary: seen unique)
  case Nil
  then show ?case by simp
next
  case (Cons x xs)
  show ?case
  proof (cases "fingerprint h x \<in> seen")
    case True
    then show ?thesis
      by (simp add: Cons.IH) auto
  next
    case False
    then show ?thesis
      by (simp add: Cons.IH) auto
  qed
qed

section \<open>Properties of the ranking\<close>

lemma py_sort_reverse_mset: "mset (py_sort_reverse key xs) = mset xs"
  by (simp add: py_sort_reverse_def)

lemma py_sort_reverse_set: "set (py_sort_reverse key xs) = set xs"
  by (simp add: py_sort_reverse_def)

lemma py_sort_reverse_distinct_map:
  "distinct (map f (py_sort_reverse key xs)) = distinct (map f xs)"
proof -
  have "mset (map f (py_sort_reverse key xs)) = mset (map f xs)"
    by (simp add: py_sort_reverse_mset)
  then show ?thesis
    by (rule mset_eq_imp_distinct_iff)
qed

lemma py_sort_reverse_sorted:
  "sorted_wrt (\<ge>) (map key (py_sort_reverse key xs))"
proof -
  have "sorted (map key (sort_key key (rev xs)))"
    by simp
  then have "sorted_wrt (\<ge>) (rev (map key (sort_key key (rev xs))))"
    by (simp only: sorted_wrt_rev)
  then show ?thesis
    by (simp add: py_sort_reverse_def rev_map)
qed

lemma py_sort_reverse_stable:
  "filter (\<lambda>x. key x = k) (py_sort_reverse key xs) = filter (\<lambda>x. key x = k) xs"
  by (simp add: py_sort_reverse_def rev_filter [symmetric] sort_key_stable)

lemma insort_key_map_same:
  "(\<And>x. f (g x) = f x) \<Longrightarrow> insort_key f (g x) (map g ys) = map g (insort_key f x ys)"
  by (induction ys) simp_all

lemma sort_key_map_same:
  "(\<And>x. f (g x) = f x) \<Longrightarrow> sort_key f (map g xs) = map g (sort_key f xs)"
  by (induction xs) (simp_all add: insort_key_map_same)

lemma score_key_with_default [simp]: "score_key (with_default_score d) = score_key d"
  by (simp add: with_default_score_def score_key_def get_or_def split: option.splits)

lemma py_sort_reverse_with_default:
  "py_sort_reverse score_key (map with_default_score xs) =
   map with_default_score (py_sort_reverse score_key xs)"
proof -
  have "sort_key score_key (map with_default_score (rev xs)) =
        map with_default_score (sort_key score_key (rev xs))"
    by (rule sort_key_map_same) simp
  then show ?thesis
    by (simp add: py_sort_reverse_def rev_map)
qed

lemma deduplicate_results_Nil: "deduplicate_results h [] = []"
  by (simp add: deduplicate_results_def py_sort_reverse_def)

lemma fingerprint_eq:
  "fingerprint h = (\<lambda>d. h (take 200 (case doc_text d of None \<Rightarrow> '''' | Some t \<Rightarrow> t)))"
  by (rule ext) (simp add: fingerprint_def get_or_def)

lemma score_key_eq: "score_key = (\<lambda>d. case doc_score d of None \<Rightarrow> 0 | Some s \<Rightarrow> s)"
  by (rule ext) (simp add: score_key_def get_or_def)

lemma deduplicate_results_set:
  "set (deduplicate_results h results) =
     {d \<in> set results. find (\<lambda>x. fingerprint h x = fingerprint h d) results = Some d}"
  by (simp add: deduplicate_results_def py_sort_reverse_set dedupe_loop_set)

text \<open>Every hash value that occurs in the input occurs in the output: a result whose
  hash has not been seen is never dropped.\<close>

lemma deduplicate_results_retains:
  "fingerprint h ` set (deduplicate_results h results) = fingerprint h ` set results"
proof
  show "fingerprint h ` set (deduplicate_results h results) \<subseteq> fingerprint h ` set results"
    by (auto simp: deduplicate_results_set)
next
  show "fingerprint h ` set results \<subseteq> fingerprint h ` set (deduplicate_results h results)"
  proof
    fix v
    assume "v \<in> fingerprint h ` set results"
    then obtain x where x: "x \<in> set results" and v: "v = fingerprint h x"
      by auto
    from x obtain d where d: "find (\<lambda>y. fingerprint h y = fingerprint h x) results = Some d"
      by (cases "find (\<lambda>y. fingerprint h y = fingerprint h x) results")
        (auto simp: find_None_iff)
    then have fd: "fingerprint h d = fingerprint h x" and "d \<in> set results"
      by (auto simp: find_Some_iff)
    with d have "d \<in> set (deduplicate_results h results)"
      by (simp add: deduplicate_results_set)
    moreover from fd v have "v = fingerprint h d"
      by simp
    ultimately show "v \<in> fingerprint h ` set (deduplicate_results h results)"
      by (simp only: image_eqI)
  qed
qed

lemma deduplicate_results_distinct:
  "distinct (map (fingerprint h) (deduplicate_results h results))"
proof -
  have "distinct (map (fingerprint h) (dedupe_loop h results {} []))"
    by (rule dedupe_loop_distinct) simp_all
  then show ?thesis
    by (simp add: deduplicate_results_def py_sort_reverse_distinct_map)
qed

lemma deduplicate_results_pair:
  "fingerprint h a = fingerprint h b \<Longrightarrow> deduplicate_results h [a, b] = [a]"
  "fingerprint h a \<noteq> fingerprint h b \<Longrightarrow>
     set (deduplicate_results h [a, b]) = {a, b} \<and> length (deduplicate_results h [a, b]) = 2"
  by (auto simp: deduplicate_results_def py_sort_reverse_set py_sort_reverse_def)

text \<open>
  Claim C4. The fingerprint of a result is written out here as the hash \<open>h\<close> of the first
  200 characters of its text, the empty string standing for a missing text. For every
  input list and every hash function: no two results returned by \<open>_deduplicate_results\<close>
  have the same fingerprint (hence no two have the same first 200 characters); the
  results returned are exactly those that come first in the input among the results
  with their fingerprint; every fingerprint of the input is the fingerprint of a result
  returned, so a result with a fingerprint not seen before is never dropped. The scores
  play no part: of two results with one fingerprint the first alone is kept whatever
  the second's score is, and of two results with different fingerprints both are kept.
\<close>

theorem dedupe_first_wins:
  "distinct (map (\<lambda>d. h (take 200 (case doc_text d of None \<Rightarrow> '''' | Some t \<Rightarrow> t)))
             (deduplicate_results h results)) \<and>
   distinct (map (\<lambda>d. take 200 (case doc_text d of None \<Rightarrow> '''' | Some t \<Rightarrow> t))
             (deduplicate_results h results)) \<and>
   set (deduplicate_results h results) =
     {d \<in> set results.
        find (\<lambda>x. h (take 200 (case doc_text x of None \<Rightarrow> '''' | Some t \<Rightarrow> t)) =
                  h (take 200 (case doc_text d of None \<Rightarrow> '''' | Some t \<Rightarrow> t)))
          results = Some d} \<and>
   (\<lambda>d. h (take 200 (case doc_text d of None \<Rightarrow> '''' | Some t \<Rightarrow> t))) `
       set (deduplicate_results h results) =
     (\<lambda>d. h (take 200 (case doc_text d of None \<Rightarrow> '''' | Some t \<Rightarrow> t))) ` set results \<and>
   (h (take 200 (case doc_text a of None \<Rightarrow> '''' | Some t \<Rightarrow> t)) =
    h (take 200 (case doc_text b of None \<Rightarrow> '''' | Some t \<Rightarrow> t)) \<longrightarrow>
      deduplicate_results h [a, b] = [a]) \<and>
   (h (take 200 (case doc_text a of None \<Rightarrow> '''' | Some t \<Rightarrow> t)) \<noteq>
    h (take 200 (case doc_text b of None \<Rightarrow> '''' | Some t \<Rightarrow> t)) \<longrightarrow>
      set (deduplicate_results h [a, b]) = {a, b} \<and>
      length (deduplicate_results h [a, b]) = 2)"
proof -
  let ?out = "deduplicate_results h results"
  let ?p = "\<lambda>d. take 200 (case doc_text d of None \<Rightarrow> '''' | Some t \<Rightarrow> t)"
  have fp: "fingerprint h = (\<lambda>d. h (?p d))"
    by (rule fingerprint_eq)
  have d1: "distinct (map (\<lambda>d. h (?p d)) ?out)"
    using deduplicate_results_distinct [of h results] by (simp only: fp)
  have "map (\<lambda>d. h (?p d)) ?out = map h (map ?p ?out)"
    by simp
  with d1 have d2: "distinct (map ?p ?out)"
    by (metis distinct_map)
  have s: "set ?out = {d \<in> set results. find (\<lambda>x. h (?p x) = h (?p d)) results = Some d}"
    using deduplicate_results_set [of h results] by (simp only: fp)
  have r: "(\<lambda>d. h (?p d)) ` set ?out = (\<lambda>d. h (?p d)) ` set results"
    using deduplicate_results_retains [of h results] by (simp only: fp)
  have p1: "h (?p a) = h (?p b) \<longrightarrow> deduplicate_results h [a, b] = [a]"
    using deduplicate_results_pair(1) [of h a b] by (simp only: fp) blast
  have p2: "h (?p a) \<noteq> h (?p b) \<longrightarrow>
      set (deduplicate_results h [a, b]) = {a, b} \<and> length (deduplicate_results h [a, b]) = 2"
    using deduplicate_results_pair(2) [of h a b] by (simp only: fp) blast
  from d1 d2 s r p1 p2 show ?thesis
    by blast
qed

text \<open>The scenario of the specification: the result seen first, with score 0.9, is kept
  and the later one with the same text and score 0.95 is dropped, for every hash
  function. With a hash that tells two texts apart (here their length), both results
  are kept, the one with the higher score first.\<close>

theorem dedupe_first_wins_witness:
  "(\<forall>h. deduplicate_results h
         [\<lparr>doc_text = Some ''use after free'', doc_score = Some (9 / 10), doc_source = []\<rparr>,
          \<lparr>doc_text = Some ''use after free'', doc_score = Some (95 / 100), doc_source = []\<rparr>] =
         [\<lparr>doc_text = Some ''use after free'', doc_score = Some (9 / 10), doc_source = []\<rparr>]) \<and>
   set (deduplicate_results (\<lambda>s. int (length s))
         [\<lparr>doc_text = Some ''use after free'', doc_score = Some (9 / 10), doc_source = []\<rparr>,
          \<lparr>doc_text = Some ''memory leak'', doc_score = Some (95 / 100), doc_source = []\<rparr>]) =
     {\<lparr>doc_text = Some ''use after free'', doc_score = Some (9 / 10), doc_source = []\<rparr>,
      \<lparr>doc_text = Some ''memory leak'', doc_score = Some (95 / 100), doc_source = []\<rparr>} \<and>
   deduplicate_results (\<lambda>s. int (length s))
         [\<lparr>doc_text = Some ''use after free'', doc_score = Some (9 / 10), doc_source = []\<rparr>,
          \<lparr>doc_text = Some ''memory leak'', doc_score = Some (95 / 100), doc_source = []\<rparr>] =
     [\<lparr>doc_text = Some ''memory leak'', doc_score = Some (95 / 100), doc_source = []\<rparr>,
      \<lparr>doc_text = Some ''use after free'', doc_score = Some (9 / 10), doc_source = []\<rparr>]"
proof -
  have a: "\<forall>h. deduplicate_results h
         [\<lparr>doc_text = Some ''use after free'', doc_score = Some (9 / 10), doc_source = []\<rparr>,
          \<lparr>doc_text = Some ''use after free'', doc_score = Some (95 / 100), doc_source = []\<rparr>] =
         [\<lparr>doc_text = Some ''use after free'', doc_score = Some (9 / 10), doc_source = []\<rparr>]"
  proof
    fix h
    show "deduplicate_results h
         [\<lparr>doc_text = Some ''use after free'', doc_score = Some (9 / 10), doc_source = []\<rparr>,
          \<lparr>doc_text = Some ''use after free'', doc_score = Some (95 / 100), doc_source = []\<rparr>] =
         [\<lparr>doc_text = Some ''use after free'', doc_score = Some (9 / 10), doc_source = []\<rparr>]"
      using dedupe_first_wins [of h "[]"
        "\<lparr>doc_text = Some ''use after free'', doc_score = Some (9 / 10), doc_source = []\<rparr>"
        "\<lparr>doc_text = Some ''use after free'', doc_score = Some (95 / 100), doc_source = []\<rparr>"]
      by simp
  qed
  have b: "set (deduplicate_results (\<lambda>s. int (length s))
         [\<lparr>doc_text = Some ''use after free'', doc_score = Some (9 / 10), doc_source = []\<rparr>,
          \<lparr>doc_text = Some ''memory leak'', doc_score = Some (95 / 100), doc_source = []\<rparr>]) =
     {\<lparr>doc_text = Some ''use after free'', doc_score = Some (9 / 10), doc_source = []\<rparr>,
      \<lparr>doc_text = Some ''memory leak'', doc_score = Some (95 / 100), doc_source = []\<rparr>}"
    using dedupe_first_wins [of "\<lambda>s. int (length s)" "[]"
        "\<lparr>doc_text = Some ''use after free'', doc_score = Some (9 / 10), doc_source = []\<rparr>"
        "\<lparr>doc_text = Some ''memory leak'', doc_score = Some (95 / 100), doc_source = []\<rparr>"]
    by simp
  have c: "deduplicate_results (\<lambda>s. int (length s))
         [\<lparr>doc_text = Some ''use after free'', doc_score = Some (9 / 10), doc_source = []\<rparr>,
          \<lparr>doc_text = Some ''memory leak'', doc_score = Some (95 / 100), doc_source = []\<rparr>] =
     [\<lparr>doc_text = Some ''memory leak'', doc_score = Some (95 / 100), doc_source = []\<rparr>,
      \<lparr>doc_text = Some ''use after free'', doc_score = Some (9 / 10), doc_source = []\<rparr>]"
    by code_simp
  from a b c show ?thesis by blast
qed

lemma py_sort_reverse_pair:
  "py_sort_reverse key [a, b] = (if key b \<le> key a then [a, b] else [b, a])"
  by (simp add: py_sort_reverse_def)

text \<open>
  Claim C5. The score of a result is written out here as the value of its \<open>score\<close>
  field, 0 standing for a missing score. For every input list the sort step returns
  the same results in non-increasing order of score, and results with equal scores keep
  the order they had in the input. Of two results the one with the strictly higher
  score comes first, and otherwise they keep their order; this holds with a missing
  score read as 0. Writing the 0 into the missing scores before or after the sort
  gives the same list. \<open>_deduplicate_results\<close> applies this step to the list its loop
  has built, so what it returns is in non-increasing order of score.
\<close>

theorem rank_sorted_stable:
  "sorted_wrt (\<lambda>a b. (case doc_score b of None \<Rightarrow> 0 | Some s \<Rightarrow> s) \<le>
                       (case doc_score a of None \<Rightarrow> 0 | Some s \<Rightarrow> s))
     (py_sort_reverse score_key xs) \<and>
   mset (py_sort_reverse score_key xs) = mset xs \<and>
   (\<forall>k. filter (\<lambda>d. (case doc_score d of None \<Rightarrow> 0 | Some s \<Rightarrow> s) = k)
          (py_sort_reverse score_key xs) =
        filter (\<lambda>d. (case doc_score d of None \<Rightarrow> 0 | Some s \<Rightarrow> s) = k) xs) \<and>
   ((case doc_score a of None \<Rightarrow> 0 | Some s \<Rightarrow> s) <
    (case doc_score b of None \<Rightarrow> 0 | Some s \<Rightarrow> s) \<longrightarrow>
      py_sort_reverse score_key [a, b] = [b, a]) \<and>
   ((case doc_score b of None \<Rightarrow> 0 | Some s \<Rightarrow> s) \<le>
    (case doc_score a of None \<Rightarrow> 0 | Some s \<Rightarrow> s) \<longrightarrow>
      py_sort_reverse score_key [a, b] = [a, b]) \<and>
   py_sort_reverse score_key (map with_default_score xs) =
     map with_default_score (py_sort_reverse score_key xs) \<and>
   deduplicate_results h results = py_sort_reverse score_key (dedupe_loop h results {} []) \<and>
   sorted_wrt (\<lambda>a b. (case doc_score b of None \<Rightarrow> 0 | Some s \<Rightarrow> s) \<le>
                       (case doc_score a of None \<Rightarrow> 0 | Some s \<Rightarrow> s))
     (deduplicate_results h results)"
proof -
  let ?k = "\<lambda>d. case doc_score d of None \<Rightarrow> 0 | Some s \<Rightarrow> (s::rat)"
  have sorted: "sorted_wrt (\<lambda>a b. ?k b \<le> ?k a) (py_sort_reverse score_key ys)" for ys
    using py_sort_reverse_sorted [of score_key ys]
    by (simp only: score_key_eq sorted_wrt_map)
  have stable: "filter (\<lambda>d. ?k d = k) (py_sort_reverse score_key xs) = filter (\<lambda>d. ?k d = k) xs"
    for k
    using py_sort_reverse_stable [of score_key k xs] by (simp only: score_key_eq)
  have pair: "py_sort_reverse score_key [a, b] = (if ?k b \<le> ?k a then [a, b] else [b, a])"
    using py_sort_reverse_pair [of score_key a b] by (simp only: score_key_eq)
  have p1: "?k a < ?k b \<longrightarrow> py_sort_reverse score_key [a, b] = [b, a]"
    using pair by simp
  have p2: "?k b \<le> ?k a \<longrightarrow> py_sort_reverse score_key [a, b] = [a, b]"
    using pair by simp
  have d: "deduplicate_results h results = py_sort_reverse score_key (dedupe_loop h results {} [])"
    by (simp only: deduplicate_results_def)
  have ds: "sorted_wrt (\<lambda>a b. ?k b \<le> ?k a) (deduplicate_results h results)"
    unfolding d by (rule sorted)
  from sorted [of xs] stable p1 p2 d ds show ?thesis
    by (simp only: py_sort_reverse_mset py_sort_reverse_with_default simp_thms)
qed

text \<open>Pairs of results: a higher score moves to the front, a missing score is below a
  positive score and above a negative one, and equal scores keep their order.\<close>

theorem rank_sorted_stable_witness:
  "py_sort_reverse score_key
     [\<lparr>doc_text = Some ''a'', doc_score = Some (1 / 2), doc_source = []\<rparr>,
      \<lparr>doc_text = Some ''b'', doc_score = Some (9 / 10), doc_source = []\<rparr>] =
     [\<lparr>doc_text = Some ''b'', doc_score = Some (9 / 10), doc_source = []\<rparr>,
      \<lparr>doc_text = Some ''a'', doc_score = Some (1 / 2), doc_source = []\<rparr>] \<and>
   py_sort_reverse score_key
     [\<lparr>doc_text = Some ''a'', doc_score = None, doc_source = []\<rparr>,
      \<lparr>doc_text = Some ''b'', doc_score = Some (1 / 2), doc_source = []\<rparr>] =
     [\<lparr>doc_text = Some ''b'', doc_score = Some (1 / 2), doc_source = []\<rparr>,
      \<lparr>doc_text = Some ''a'', doc_score = None, doc_source = []\<rparr>] \<and>
   py_sort_reverse score_key
     [\<lparr>doc_text = Some ''a'', doc_score = None, doc_source = []\<rparr>,
      \<lparr>doc_text = Some ''b'', doc_score = Some (- 1), doc_source = []\<rparr>] =
     [\<lparr>doc_text = Some ''a'', doc_score = None, doc_source = []\<rparr>,
      \<lparr>doc_text = Some ''b'', doc_score = Some (- 1), doc_source = []\<rparr>] \<and>
   py_sort_reverse score_key
     [\<lparr>doc_text = Some ''a'', doc_score = Some (1 / 2), doc_source = []\<rparr>,
      \<lparr>doc_text = Some ''b'', doc_score = Some (1 / 2), doc_source = []\<rparr>] =
     [\<lparr>doc_text = Some ''a'', doc_score = Some (1 / 2), doc_source = []\<rparr>,
      \<lparr>doc_text = Some ''b'', doc_score = Some (1 / 2), doc_source = []\<rparr>]"
  using rank_sorted_stable
      [where a = "\<lparr>doc_text = Some ''a'', doc_score = Some (1 / 2), doc_source = []\<rparr>"
        and b = "\<lparr>doc_text = Some ''b'', doc_score = Some (9 / 10), doc_source = []\<rparr>"
        and xs = "[]" and results = "[]"]
    rank_sorted_stable
      [where a = "\<lparr>doc_text = Some ''a'', doc_score = None, doc_source = []\<rparr>"
        and b = "\<lparr>doc_text = Some ''b'', doc_score = Some (1 / 2), doc_source = []\<rparr>"
        and xs = "[]" and results = "[]"]
    rank_sorted_stable
      [where a = "\<lparr>doc_text = Some ''a'', doc_score = None, doc_source = []\<rparr>"
        and b = "\<lparr>doc_text = Some ''b'', doc_score = Some (- 1), doc_source = []\<rparr>"
        and xs = "[]" and results = "[]"]
    rank_sorted_stable
      [where a = "\<lparr>doc_text = Some ''a'', doc_score = Some (1 / 2), doc_source = []\<rparr>"
        and b = "\<lparr>doc_text = Some ''b'', doc_score = Some (1 / 2), doc_source = []\<rparr>"
        and xs = "[]" and results = "[]"]
  by simp

text \<open>An example: the two results with score 0.5 keep their order, and the result
  without a score is placed as a result with score 0.\<close>

lemma rank_example:
  "py_sort_reverse score_key
     [\<lparr>doc_text = Some ''a'', doc_score = Some (1 / 2), doc_source = []\<rparr>,
      \<lparr>doc_text = Some ''b'', doc_score = None, doc_source = []\<rparr>,
      \<lparr>doc_text = Some ''c'', doc_score = Some (9 / 10), doc_source = []\<rparr>,
      \<lparr>doc_text = Some ''d'', doc_score = Some (1 / 2), doc_source = []\<rparr>,
      \<lparr>doc_text = Some ''e'', doc_score = Some (- 1), doc_source = []\<rparr>] =
     [\<lparr>doc_text = Some ''c'', doc_score = Some (9 / 10), doc_source = []\<rparr>,
      \<lparr>doc_text = Some ''a'', doc_score = Some (1 / 2), doc_source = []\<rparr>,
      \<lparr>doc_text = Some ''d'', doc_score = Some (1 / 2), doc_source = []\<rparr>,
      \<lparr>doc_text = Some ''b'', doc_score = None, doc_source = []\<rparr>,
      \<lparr>doc_text = Some ''e'', doc_score = Some (- 1), doc_source = []\<rparr>]"
  by code_simp

section \<open>Properties of the rendering\<close>

lemma show_nat_length: "n < 10 ^ k \<Longrightarrow> 0 < k \<Longrightarrow> length (show_nat n) \<le> k"
proof (induction n arbitrary: k rule: show_nat.induct)
  case (1 n)
  show ?case
  proof (cases "n < 10")
    case True
    with "1.prems" show ?thesis
      by (simp add: show_nat.simps [of n])
  next
    case False
    obtain j where k: "k = Suc j"
      using "1.prems" by (cases k) simp_all
    from False "1.prems" k have "0 < j"
      by (cases j) simp_all
    moreover from "1.prems" k have "n div 10 < 10 ^ j"
      by (simp add: less_mult_imp_div_less mult.commute)
    ultimately have "length (show_nat (n div 10)) \<le> j"
      using "1.IH" False by simp
    with False k show ?thesis
      by (simp add: show_nat.simps [of n])
  qed
qed

lemma show_nat_digit: "n < 10 \<Longrightarrow> length (show_nat n) = 1"
  by (simp add: show_nat.simps [of n])

lemma round_half_even_le:
  assumes "x \<le> of_int N"
  shows "round_half_even x \<le> N"
proof -
  from assms have f: "\<lfloor>x\<rfloor> \<le> N"
    by (simp add: floor_le_iff)
  show ?thesis
  proof (cases "x - of_int \<lfloor>x\<rfloor> < 1 / 2")
    case True
    with f show ?thesis by (simp add: round_half_even_def)
  next
    case False
    then have "of_int \<lfloor>x\<rfloor> < x" by simp
    with assms have "(of_int \<lfloor>x\<rfloor> :: rat) < of_int N" by simp
    then have "\<lfloor>x\<rfloor> < N" by simp
    with f show ?thesis by (simp add: round_half_even_def Let_def)
  qed
qed

text \<open>A finite float prints with at most 309 digits before the point, so with the sign,
  the point and the two decimals \<open>{score:.2f}\<close> is at most 313 characters long.\<close>

lemma format_2f_length:
  assumes "\<bar>x\<bar> \<le> max_float"
  shows "length (format_2f x) \<le> 313"
proof -
  define M :: int where "M = (2 ^ 53 - 1) * 2 ^ 971"
  define y where "y = \<bar>x\<bar>"
  have M: "max_float = of_int M"
    by (simp add: max_float_def M_def)
  have "y * 100 \<le> of_int (M * 100)"
    using assms by (simp add: M y_def)
  then have "round_half_even (y * 100) \<le> M * 100"
    by (rule round_half_even_le)
  then have "nat (round_half_even (y * 100)) \<le> nat M * 100"
    by (simp add: M_def nat_mult_distrib nat_le_iff)
  then have "nat (round_half_even (y * 100)) div 100 \<le> nat M"
    by simp
  moreover have "nat M < 10 ^ 309"
    by (simp add: M_def)
  ultimately have "nat (round_half_even (y * 100)) div 100 < 10 ^ 309"
    by (rule le_less_trans)
  then have "length (show_nat (nat (round_half_even (y * 100)) div 100)) \<le> 309"
    by (rule show_nat_length) simp
  then show ?thesis
    unfolding format_2f_def Let_def y_def [symmetric] by simp
qed

lemma rendered_block_length:
  assumes "i < 10" and "\<bar>score_key d\<bar> \<le> max_float"
  shows "length (rendered_block i d) \<le> 642"
proof -
  have "length (format_2f (get_or (doc_score d) 0)) \<le> 313"
    using assms(2) by (simp add: format_2f_length score_key_def)
  moreover have "length (show_nat i) = 1"
    using assms(1) by (rule show_nat_digit)
  ultimately show ?thesis
    by (simp add: rendered_block_def)
qed

lemma synthesize_context_blocks:
  "synthesize_context [] = ''No relevant documentation found.''"
  "synthesize_context [a] = rendered_block 1 a"
  "synthesize_context [a, b] = rendered_block 1 a @ [newline, newline] @ rendered_block 2 b"
  "synthesize_context (a # b # c # rest) =
     rendered_block 1 a @ [newline, newline] @ rendered_block 2 b @ [newline, newline] @
     rendered_block 3 c"
proof -
  have two: "Suc (Suc 0) = 2" and three: "Suc (Suc (Suc 0)) = 3"
    by simp_all
  show "synthesize_context [] = ''No relevant documentation found.''"
    by (simp add: synthesize_context_def)
  show "synthesize_context [a] = rendered_block 1 a"
    by (simp add: synthesize_context_def rendered_block_def)
  show "synthesize_context [a, b] = rendered_block 1 a @ [newline, newline] @ rendered_block 2 b"
    by (simp add: synthesize_context_def rendered_block_def two)
  show "synthesize_context (a # b # c # rest) =
     rendered_block 1 a @ [newline, newline] @ rendered_block 2 b @ [newline, newline] @
     rendered_block 3 c"
    by (simp add: synthesize_context_def rendered_block_def two three)
qed

lemma synthesize_context_length:
  assumes "\<forall>d \<in> set (take 3 results). \<bar>score_key d\<bar> \<le> max_float"
  shows "length (synthesize_context results) \<le> 3 * (300 + 342) + 2 * 2"
proof -
  consider "results = []" | a where "results = [a]" | a b where "results = [a, b]"
    | a b c rest where "results = a # b # c # rest"
    by (metis list.exhaust)
  then show ?thesis
  proof cases
    case 1
    then show ?thesis by (simp add: synthesize_context_blocks)
  next
    case 2
    with assms have "length (rendered_block 1 a) \<le> 642"
      by (simp add: rendered_block_length)
    with 2 show ?thesis by (simp add: synthesize_context_blocks)
  next
    case 3
    with assms have "length (rendered_block 1 a) \<le> 642"
      and "length (rendered_block 2 b) \<le> 642"
      by (simp_all add: rendered_block_length)
    with 3 show ?thesis by (simp add: synthesize_context_blocks)
  next
    case 4
    with assms have "length (rendered_block 1 a) \<le> 642"
      and "length (rendered_block 2 b) \<le> 642"
      and "length (rendered_block 3 c) \<le> 642"
      by (simp_all add: rendered_block_length)
    with 4 show ?thesis by (simp add: synthesize_context_blocks)
  qed
qed

text \<open>
  Claim C8. \<open>_synthesize_context\<close> returns exactly the sentinel for the empty list.
  Otherwise it renders the first three results and nothing else: each as the block
  \<open>rendered_block\<close> with its position counted from 1, the score to two decimals, the
  first 300 characters of the text and the marker \<open>...\<close> (appended also when nothing was
  cut), the blocks joined by two line breaks. When the scores are finite floats the
  result is at most \<open>3 * (300 + 342) + 2 * 2\<close> characters long: the label and marker
  take at most 342 characters, 313 of them for the printed score.
\<close>

theorem synthesize_context_shape:
  "synthesize_context [] = ''No relevant documentation found.'' \<and>
   synthesize_context [a] = rendered_block 1 a \<and>
   synthesize_context [a, b] = rendered_block 1 a @ [newline, newline] @ rendered_block 2 b \<and>
   synthesize_context (a # b # c # rest) =
     rendered_block 1 a @ [newline, newline] @ rendered_block 2 b @ [newline, newline] @
     rendered_block 3 c \<and>
   ((\<forall>d \<in> set (take 3 results). \<bar>score_key d\<bar> \<le> max_float) \<longrightarrow>
      length (synthesize_context results) \<le> 3 * (300 + 342) + 2 * 2)"
  using synthesize_context_length [of results]
  by (simp only: synthesize_context_blocks) simp

theorem synthesize_context_shape_witness:
  "\<bar>9 / 10\<bar> \<le> max_float \<and> \<bar>0\<bar> \<le> max_float \<and> \<bar>- 5 / 2\<bar> \<le> max_float \<and>
   length (synthesize_context
      [\<lparr>doc_text = Some ''Use after free'', doc_score = Some (9 / 10), doc_source = []\<rparr>,
       \<lparr>doc_text = None, doc_score = None, doc_source = []\<rparr>,
       \<lparr>doc_text = Some ''Dangling pointer'', doc_score = Some (- 5 / 2), doc_source = []\<rparr>,
       \<lparr>doc_text = Some ''Memory leak'', doc_score = Some (- 3), doc_source = []\<rparr>])
     \<le> 3 * (300 + 342) + 2 * 2 \<and>
   synthesize_context
      [\<lparr>doc_text = Some ''Use after free'', doc_score = Some (9 / 10), doc_source = []\<rparr>,
       \<lparr>doc_text = None, doc_score = None, doc_source = []\<rparr>,
       \<lparr>doc_text = Some ''Dangling pointer'', doc_score = Some (- 5 / 2), doc_source = []\<rparr>,
       \<lparr>doc_text = Some ''Memory leak'', doc_score = Some (- 3), doc_source = []\<rparr>] =
     ''[Document 1, relevance: 0.90]'' @ [newline] @ ''Use after free...'' @ [newline, newline] @
     ''[Document 2, relevance: 0.00]'' @ [newline] @ ''...'' @ [newline, newline] @
     ''[Document 3, relevance: -2.50]'' @ [newline] @ ''Dangling pointer...''"
proof -
  let ?rs = "[\<lparr>doc_text = Some ''Use after free'', doc_score = Some (9 / 10), doc_source = []\<rparr>,
       \<lparr>doc_text = None, doc_score = None, doc_source = []\<rparr>,
       \<lparr>doc_text = Some ''Dangling pointer'', doc_score = Some (- 5 / 2), doc_source = []\<rparr>,
       \<lparr>doc_text = Some ''Memory leak'', doc_score = Some (- 3), doc_source = []\<rparr>]"
  have m: "\<bar>9 / 10\<bar> \<le> max_float \<and> \<bar>0\<bar> \<le> max_float \<and> \<bar>- 5 / 2\<bar> \<le> max_float"
    by (simp add: max_float_def)
  then have h: "\<forall>d \<in> set (take 3 ?rs). \<bar>score_key d\<bar> \<le> max_float"
    by (simp add: score_key_def get_or_def)
  have e: "synthesize_context ?rs =
     ''[Document 1, relevance: 0.90]'' @ [newline] @ ''Use after free...'' @ [newline, newline] @
     ''[Document 2, relevance: 0.00]'' @ [newline] @ ''...'' @ [newline, newline] @
     ''[Document 3, relevance: -2.50]'' @ [newline] @ ''Dangling pointer...''"
    by code_simp
  from synthesize_context_shape [where results = ?rs] h
  have "length (synthesize_context ?rs) \<le> 3 * (300 + 342) + 2 * 2"
    by blast
  with m e show ?thesis
    by blast
qed

section \<open>Properties of the query planning\<close>

lemma bug_loop_eq: "bug_loop bs queries = queries @ concat (map bug_queries bs)"
  by (induction bs arbitrary: queries) (simp_all add: bug_queries_def Let_def)

lemma generate_search_queries_eq:
  "fst (generate_search_queries invoke_with_template code bug_info) =
     take 5 (concat (map bug_queries (take 3 (get_or (bugs_found bug_info) []))) @
             [''C++ common bugs''] @
             (case invoke_with_template keyword_template [(''code'', take 500 code)] of
                Inr terms \<Rightarrow> [py_strip terms]
              | Inl e \<Rightarrow> []))"
  by (simp add: generate_search_queries_def bug_loop_eq Let_def split: sum.splits)

text \<open>The number of queries is between 1 and 5 whatever the collaborator does.\<close>

lemma generate_search_queries_count:
  "1 \<le> length (fst (generate_search_queries invoke_with_template code bug_info)) \<and>
   length (fst (generate_search_queries invoke_with_template code bug_info)) \<le> 5"
  by (simp add: generate_search_queries_eq split: sum.splits) (auto simp: min_def)

lemma bug_queries_nonempty: "q \<in> set (bug_queries b) \<Longrightarrow> q \<noteq> ''''"
  by (auto simp: bug_queries_def Let_def split: if_splits)

text \<open>Every query other than the keyword query is a non-empty string.\<close>

lemma generate_search_queries_nonempty:
  assumes "q \<in> set (fst (generate_search_queries invoke_with_template code bug_info))"
    and "\<And>terms. invoke_with_template keyword_template [(''code'', take 500 code)] = Inr terms
          \<Longrightarrow> q \<noteq> py_strip terms"
  shows "q \<noteq> ''''"
proof -
  from assms(1) have "q \<in> set (concat (map bug_queries (take 3 (get_or (bugs_found bug_info) []))) @
             [''C++ common bugs''] @
             (case invoke_with_template keyword_template [(''code'', take 500 code)] of
                Inr terms \<Rightarrow> [py_strip terms]
              | Inl e \<Rightarrow> []))"
    unfolding generate_search_queries_eq by (rule in_set_takeD)
  with assms(2) show ?thesis
    by (auto split: sum.splits dest: bug_queries_nonempty)
qed

text \<open>
  Claim C6. The count of the claim holds (\<open>generate_search_queries_count\<close>), and so does
  the non-emptiness of every query but the keyword query
  (\<open>generate_search_queries_nonempty\<close>). The keyword query is appended without the
  emptiness test that guards the description: when the collaborator answers with
  blank text, the stripped answer is the empty string and is returned as a query.
\<close>

theorem generate_search_queries_empty_query:
  "fst (generate_search_queries (\<lambda>t a. Inr ''  '') ''int main() { return 0; }''
          \<lparr>bugs_found = Some []\<rparr>) =
     [''C++ common bugs'', '''']"
  by code_simp

text \<open>
  Claim C7. The queries are the first five of the candidates in the order they are
  generated: for each of the first three bugs the domain-qualified query, the example
  query and the description cut to 100 characters (each when present), then the generic
  query, then the keyword query when the extraction succeeded. When the bugs alone give
  five candidates or more, the generic query is cut away. For the bug of the
  specification's scenario and a failing extraction the result is the four queries
  listed there.
\<close>

theorem generate_search_queries_order:
  "fst (generate_search_queries invoke_with_template code bug_info) =
     take 5 (concat (map bug_queries (take 3 (get_or (bugs_found bug_info) []))) @
             [''C++ common bugs''] @
             (case invoke_with_template keyword_template [(''code'', take 500 code)] of
                Inr terms \<Rightarrow> [py_strip terms]
              | Inl e \<Rightarrow> [])) \<and>
   (5 \<le> length (concat (map bug_queries (take 3 (get_or (bugs_found bug_info) [])))) \<longrightarrow>
      fst (generate_search_queries invoke_with_template code bug_info) =
        take 5 (concat (map bug_queries (take 3 (get_or (bugs_found bug_info) []))))) \<and>
   (invoke_with_template keyword_template [(''code'', take 500 code)] = Inl e \<longrightarrow>
      fst (generate_search_queries invoke_with_template code
             \<lparr>bugs_found = Some [\<lparr>bug_type = Some ''use-after-free'',
                   description = Some ''pointer freed then dereferenced in loop''\<rparr>]\<rparr>) =
        [''C++ use-after-free'', ''use-after-free bug example'',
         ''pointer freed then dereferenced in loop'', ''C++ common bugs''])"
proof -
  have "invoke_with_template keyword_template [(''code'', take 500 code)] = Inl e \<Longrightarrow>
      fst (generate_search_queries invoke_with_template code
             \<lparr>bugs_found = Some [\<lparr>bug_type = Some ''use-after-free'',
                   description = Some ''pointer freed then dereferenced in loop''\<rparr>]\<rparr>) =
        [''C++ use-after-free'', ''use-after-free bug example'',
         ''pointer freed then dereferenced in loop'', ''C++ common bugs'']"
    by (simp add: generate_search_queries_eq bug_queries_def get_or_def)
  then show ?thesis
    by (simp add: generate_search_queries_eq)
qed

theorem generate_search_queries_order_witness:
  "fst (generate_search_queries (\<lambda>t a. Inl (OtherException ''model unavailable''))
          ''delete p; p->run();''
          \<lparr>bugs_found = Some [\<lparr>bug_type = Some ''use-after-free'',
                   description = Some ''pointer freed then dereferenced in loop''\<rparr>]\<rparr>) =
        [''C++ use-after-free'', ''use-after-free bug example'',
         ''pointer freed then dereferenced in loop'', ''C++ common bugs''] \<and>
   fst (generate_search_queries (\<lambda>t a. Inr ''pointer, free, loop'') ''delete p; p->run();''
          \<lparr>bugs_found = Some
             [\<lparr>bug_type = Some ''use-after-free'', description = Some ''freed pointer used''\<rparr>,
              \<lparr>bug_type = Some ''memory leak'', description = Some ''buffer never released''\<rparr>]\<rparr>) =
        [''C++ use-after-free'', ''use-after-free bug example'', ''freed pointer used'',
         ''C++ memory leak'', ''memory leak bug example'']"
proof -
  have a: "5 \<le> length (concat (map bug_queries (take 3 (get_or (bugs_found
          \<lparr>bugs_found = Some
             [\<lparr>bug_type = Some ''use-after-free'', description = Some ''freed pointer used''\<rparr>,
              \<lparr>bug_type = Some ''memory leak'', description = Some ''buffer never released''\<rparr>]\<rparr>)
          []))))"
    by (simp add: bug_queries_def get_or_def)
  show ?thesis
    using generate_search_queries_order [of "\<lambda>t a. Inl (OtherException ''model unavailable'')"
        "''delete p; p->run();''" _ "OtherException ''model unavailable''"]
      generate_search_queries_order [of "\<lambda>t a. Inr ''pointer, free, loop''"
        "''delete p; p->run();''"
        "\<lparr>bugs_found = Some
           [\<lparr>bug_type = Some ''use-after-free'', description = Some ''freed pointer used''\<rparr>,
            \<lparr>bug_type = Some ''memory leak'', description = Some ''buffer never released''\<rparr>]\<rparr>"] a
    by (simp add: bug_queries_def get_or_def)
qed

section \<open>Properties of the retrieval\<close>

lemma search_loop_all_fail:
  "(\<And>s q. isl (fst (search s q))) \<Longrightarrow>
   fst (search_loop search queries all_results lg s) = all_results \<and>
   length (fst (snd (search_loop search queries all_results lg s))) = length lg + length queries"
proof (induction queries arbitrary: lg s)
  case Nil
  then show ?case by simp
next
  case (Cons q queries)
  obtain r s' where r: "search s q = (r, s')"
    by (cases "search s q")
  with Cons.prems [of s q] obtain e where "r = Inl e"
    by (cases r) simp_all
  with r Cons show ?case by simp
qed

text \<open>A failed query does not end the loop: for an index that answers each query the same
  way at every call, the loop collects the results of the queries that succeed, in the
  order of the queries, and nothing for those that fail.\<close>

lemma search_loop_continue_on_error:
  "fst (search_loop (\<lambda>s q. (answer q, s)) queries all_results lg s) =
     all_results @
     concat (map (\<lambda>q. case answer q of Inl e \<Rightarrow> [] | Inr results \<Rightarrow> results) queries)"
  by (induction queries arbitrary: all_results lg) (simp_all split: sum.splits)

text \<open>
  Claim C1. When every call of the document index fails, whatever the state of the index
  and the query, \<open>retrieve_bug_context\<close> returns (the model has no raising outcome for
  it: each failure is taken by the \<open>except\<close> branch of the loop) and the result has no
  document, the sentinel text and a count of 0. Each failed query leaves one record in
  the log. Nothing is assumed about the text-generation call, the hash, the code or the
  bug information.
\<close>

theorem retrieve_all_searches_fail:
  assumes "\<And>s q. isl (fst (search s q))"
  shows "fst (retrieve_bug_context search invoke_with_template h code bug_info s) =
           \<lparr>retrieved_documents = [],
            synthesized_context = ''No relevant documentation found.'',
            total_documents_found = 0\<rparr> \<and>
         length (fst (snd (retrieve_bug_context search invoke_with_template h code bug_info s))) =
           length (snd (generate_search_queries invoke_with_template code bug_info)) +
           length (fst (generate_search_queries invoke_with_template code bug_info))"
proof -
  obtain queries lg
    where g: "generate_search_queries invoke_with_template code bug_info = (queries, lg)"
    by (cases "generate_search_queries invoke_with_template code bug_info")
  obtain all_results lg' s'
    where l: "search_loop search queries [] lg s = (all_results, lg', s')"
    by (cases "search_loop search queries [] lg s")
  have "fst (search_loop search queries [] lg s) = [] \<and>
        length (fst (snd (search_loop search queries [] lg s))) = length lg + length queries"
    using assms by (rule search_loop_all_fail)
  with l have "all_results = []" and "length lg' = length lg + length queries"
    by simp_all
  with g l show ?thesis
    by (simp add: retrieve_bug_context_def deduplicate_results_Nil synthesize_context_def)
qed

theorem retrieve_all_searches_fail_witness:
  "isl (fst ((\<lambda>s q. (Inl (OtherException ''connection refused''), Suc s)) (0::nat)
               ''C++ common bugs'')) \<and>
   retrieve_bug_context (\<lambda>s q. (Inl (OtherException ''connection refused''), Suc s))
       (\<lambda>t a. Inr ''pointer, free, loop'') (\<lambda>s. int (length s)) ''delete p; p->run();''
       \<lparr>bugs_found = Some [\<lparr>bug_type = Some ''use-after-free'', description = None\<rparr>]\<rparr>
       (0::nat) =
     (\<lparr>retrieved_documents = [],
       synthesized_context = ''No relevant documentation found.'',
       total_documents_found = 0\<rparr>,
      [(ERROR, ''Error searching documents: connection refused''),
       (ERROR, ''Error searching documents: connection refused''),
       (ERROR, ''Error searching documents: connection refused''),
       (ERROR, ''Error searching documents: connection refused'')],
      4)"
proof -
  have "retrieve_bug_context (\<lambda>s q. (Inl (OtherException ''connection refused''), Suc s))
       (\<lambda>t a. Inr ''pointer, free, loop'') (\<lambda>s. int (length s)) ''delete p; p->run();''
       \<lparr>bugs_found = Some [\<lparr>bug_type = Some ''use-after-free'', description = None\<rparr>]\<rparr>
       (0::nat) =
     (\<lparr>retrieved_documents = [],
       synthesized_context = ''No relevant documentation found.'',
       total_documents_found = 0\<rparr>,
      [(ERROR, ''Error searching documents: connection refused''),
       (ERROR, ''Error searching documents: connection refused''),
       (ERROR, ''Error searching documents: connection refused''),
       (ERROR, ''Error searching documents: connection refused'')],
      4)"
    by code_simp
  then show ?thesis
    using retrieve_all_searches_fail
      [of "\<lambda>s q. (Inl (OtherException ''connection refused''), Suc s)"
        "\<lambda>t a. Inr ''pointer, free, loop''" "\<lambda>s. int (length s)" "''delete p; p->run();''"
        "\<lparr>bugs_found = Some [\<lparr>bug_type = Some ''use-after-free'', description = None\<rparr>]\<rparr>"
        "0::nat"]
    by simp
qed

lemma synthesize_context_take:
  "3 \<le> n \<Longrightarrow> synthesize_context (take n xs) = synthesize_context xs"
  by (cases xs) (simp_all add: synthesize_context_def min_def)

text \<open>
  Claim C10. The synthesized context of a list is the synthesized context of its first
  five elements, since only the first three are rendered. So although
  \<open>retrieve_bug_context\<close> hands the whole ranked list to \<open>_synthesize_context\<close>, the
  context it returns is the one synthesized from the at most five documents it returns.
\<close>

theorem synthesize_context_top5:
  "synthesize_context xs = synthesize_context (take 5 xs) \<and>
   synthesized_context (fst (retrieve_bug_context search invoke_with_template h code bug_info s)) =
     synthesize_context
       (retrieved_documents
          (fst (retrieve_bug_context search invoke_with_template h code bug_info s))) \<and>
   length (retrieved_documents
             (fst (retrieve_bug_context search invoke_with_template h code bug_info s))) \<le> 5"
proof -
  have "synthesize_context (take 5 ys) = synthesize_context ys" for ys
    by (rule synthesize_context_take) simp
  then show ?thesis
    by (simp add: retrieve_bug_context_def Let_def split: prod.splits)
qed

section \<open>Properties of the code parser\<close>

lemma py_split_length: "length (py_split sep s) = count_list s sep + 1"
  by (induction s) (auto split: list.splits)

text \<open>
  Claim C2, as amended. When the text-generation call returns a response and decoding
  the response, after the strips, fails with a \<open>JSONDecodeError\<close>, \<open>parse_code\<close> returns
  the record with empty \<open>functions\<close>, \<open>variables\<close> and \<open>potential_issues\<close>, complexity
  \<open>unknown\<close>, the fixed summary, and \<open>line_count\<close> equal to the number of pieces that
  the line breaks cut the code argument into, which is the number of line breaks in the
  code plus one. The response plays no part in the record.
\<close>

theorem parse_code_fallback:
  assumes "invoke_with_template parse_template (parse_kwargs code context) = Inr response"
    and "json_loads (extract_json response) = Inl (JSONDecodeError m)"
  shows "fst (parse_code invoke_with_template json_loads code context) =
           Inr (JObject
                  [(''functions'', JArray []),
                   (''variables'', JArray []),
                   (''line_count'', JInt (int (count_list code newline) + 1)),
                   (''complexity'', JString ''unknown''),
                   (''potential_issues'', JArray []),
                   (''code_summary'', JString ''Unable to parse code structure'')])"
proof -
  have "parse_code invoke_with_template json_loads code context =
          parse_except code (JSONDecodeError m)"
    using assms by (simp add: parse_code_def)
  then have "fst (parse_code invoke_with_template json_loads code context) =
          Inr (fallback_record code)"
    by (simp add: parse_except_def)
  then show ?thesis
    by (simp add: fallback_record_def py_split_length)
qed

theorem parse_code_fallback_witness:
  "fst (parse_code (\<lambda>t a. Inr ''not json at all'') example_loads
          (''int x;'' @ [newline] @ ''x = 1;'') '''') =
     Inr (JObject
            [(''functions'', JArray []),
             (''variables'', JArray []),
             (''line_count'', JInt 2),
             (''complexity'', JString ''unknown''),
             (''potential_issues'', JArray []),
             (''code_summary'', JString ''Unable to parse code structure'')])"
proof -
  have "extract_json ''not json at all'' = ''not json at all''"
    by code_simp
  then have "example_loads (extract_json ''not json at all'') =
      Inl (JSONDecodeError ''Expecting value: line 1 column 1 (char 0)'')"
    by (simp add: example_loads_def)
  then show ?thesis
    using parse_code_fallback [of "\<lambda>t a. Inr ''not json at all''"
        "''int x;'' @ [newline] @ ''x = 1;''" "''''" "''not json at all''" example_loads
        "''Expecting value: line 1 column 1 (char 0)''"]
    by (simp add: newline_def)
qed

text \<open>Claim C2 as written fails: for the response \<open>not json at all\<close> and a code argument
  without a line break the record has \<open>line_count\<close> 1, while the number of line breaks
  in the code is 0.\<close>

theorem parse_code_line_count_counterexample:
  "fst (parse_code (\<lambda>t a. Inr ''not json at all'') example_loads ''int x;'' '''') =
     Inr (fallback_record ''int x;'') \<and>
   json_field ''line_count'' (fallback_record ''int x;'') = Some (JInt 1) \<and>
   count_list ''int x;'' newline = 0 \<and>
   json_field ''line_count'' (fallback_record ''int x;'') \<noteq>
     Some (JInt (int (count_list ''int x;'' newline)))"
proof -
  have "extract_json ''not json at all'' = ''not json at all''"
    by code_simp
  then show ?thesis
    by (simp add: parse_code_def parse_except_def fallback_record_def newline_def
        example_loads_def)
qed

lemma parse_except_raises:
  "fst (parse_except code e) = Inl e' \<longleftrightarrow> e' = e \<and> \<not> is_JSONDecodeError e"
  by (auto simp: parse_except_def)

lemma parse_except_fallback:
  "is_JSONDecodeError e \<Longrightarrow> fst (parse_except code e) = Inr (fallback_record code)"
  by (simp add: parse_except_def)

text \<open>The three ways through the \<open>try\<close> block.\<close>

lemma parse_code_invoke_fails:
  "invoke_with_template parse_template (parse_kwargs code context) = Inl e \<Longrightarrow>
   parse_code invoke_with_template json_loads code context = parse_except code e"
  by (simp add: parse_code_def)

lemma parse_code_loads_fails:
  "invoke_with_template parse_template (parse_kwargs code context) = Inr response \<Longrightarrow>
   json_loads (extract_json response) = Inl e \<Longrightarrow>
   parse_code invoke_with_template json_loads code context = parse_except code e"
  by (simp add: parse_code_def)

lemma parse_code_decoded:
  "invoke_with_template parse_template (parse_kwargs code context) = Inr response \<Longrightarrow>
   json_loads (extract_json response) = Inr parsed \<Longrightarrow>
   fst (parse_code invoke_with_template json_loads code context) = Inr parsed"
  by (simp add: parse_code_def)

text \<open>
  Claim C3. \<open>parse_code\<close> raises \<open>e\<close> exactly when \<open>e\<close> is not a \<open>JSONDecodeError\<close> and
  was raised by the text-generation call or by the decoding of the response: such an
  exception reaches the caller as it was raised. A \<open>JSONDecodeError\<close> raised at either
  place never reaches the caller; the fallback record is returned instead.
\<close>

theorem parse_code_raises_iff:
  "(fst (parse_code invoke_with_template json_loads code context) = Inl e \<longleftrightarrow>
      \<not> is_JSONDecodeError e \<and>
      (invoke_with_template parse_template (parse_kwargs code context) = Inl e \<or>
       (\<exists>response.
          invoke_with_template parse_template (parse_kwargs code context) = Inr response \<and>
          json_loads (extract_json response) = Inl e))) \<and>
   (is_JSONDecodeError e \<and>
    (invoke_with_template parse_template (parse_kwargs code context) = Inl e \<or>
     (\<exists>response.
        invoke_with_template parse_template (parse_kwargs code context) = Inr response \<and>
        json_loads (extract_json response) = Inl e)) \<longrightarrow>
    fst (parse_code invoke_with_template json_loads code context) = Inr (fallback_record code))"
proof (cases "invoke_with_template parse_template (parse_kwargs code context)")
  case (Inl e1)
  then have "parse_code invoke_with_template json_loads code context = parse_except code e1"
    by (rule parse_code_invoke_fails)
  with Inl show ?thesis
    by (auto simp: parse_except_raises parse_except_fallback)
next
  case (Inr response)
  show ?thesis
  proof (cases "json_loads (extract_json response)")
    case (Inl e2)
    with Inr have "parse_code invoke_with_template json_loads code context =
        parse_except code e2"
      by (rule parse_code_loads_fails)
    with Inr Inl show ?thesis
      by (auto simp: parse_except_raises parse_except_fallback)
  next
    case (Inr parsed)
    with \<open>invoke_with_template parse_template (parse_kwargs code context) = Inr response\<close>
    have "fst (parse_code invoke_with_template json_loads code context) = Inr parsed"
      by (rule parse_code_decoded)
    with Inr \<open>invoke_with_template parse_template (parse_kwargs code context) = Inr response\<close>
    show ?thesis
      by simp
  qed
qed

theorem parse_code_raises_iff_witness:
  "fst (parse_code (\<lambda>t a. Inl (OtherException ''deadline exceeded'')) example_loads
          ''int x;'' '''') = Inl (OtherException ''deadline exceeded'') \<and>
   fst (parse_code (\<lambda>t a. Inr ''not json at all'') example_loads ''int x;'' '''') =
     Inr (fallback_record ''int x;'') \<and>
   fst (parse_code (\<lambda>t a. Inr ''{}'') example_loads ''int x;'' '''') = Inr (JObject [])"
proof -
  have x: "extract_json ''not json at all'' = ''not json at all''"
    by code_simp
  have y: "extract_json ''{}'' = ''{}''"
    by code_simp
  have "fst (parse_code (\<lambda>t a. Inr ''{}'') example_loads ''int x;'' '''') = Inr (JObject [])"
    by (simp add: parse_code_def y example_loads_def)
  then show ?thesis
    using parse_code_raises_iff [of "\<lambda>t a. Inl (OtherException ''deadline exceeded'')"
        example_loads "''int x;''" "''''" "OtherException ''deadline exceeded''"]
      parse_code_raises_iff [of "\<lambda>t a. Inr ''not json at all''" example_loads "''int x;''" "''''"
        "JSONDecodeError ''Expecting value: line 1 column 1 (char 0)''"]
    by (simp add: x example_loads_def)
qed







end
